theory Spec2Isabelle
  imports Complex_Main
begin

section \<open>Data model of the live transcription session manager\<close>

text \<open>
  The embedding follows \<^verbatim>\<open>src/sockets/audioStream.handler.ts\<close> (class
  \<^verbatim>\<open>AudioStreamHandler\<close>) and the \<^verbatim>\<open>TranscriptionService\<close> class of
  \<^verbatim>\<open>src/services/meeting.service.ts\<close>. The two in-memory maps of the classes are the
  state; every call to a collaborator outside the two classes (the meeting repository,
  the Deepgram SDK) takes its outcome from an environment record, so that each throw
  of the source is a branch of the model. Each handler is modelled as running to
  completion; the effects it has on the outside world are returned as a list, in
  program order.
\<close>

type_synonym meeting_id = string
type_synonym socket_id = string

text \<open>A Deepgram live connection object, identified by a handle.\<close>
type_synonym conn = nat

text \<open>A thrown value.\<close>
datatype err = Err string

text \<open>The socket: its id and the \<^verbatim>\<open>userId\<close> that authentication attached (if any).\<close>
record socket =
  socket_id :: socket_id
  socket_userId :: "string option"

text \<open>The row \<^verbatim>\<open>findById\<close> returns; only \<^verbatim>\<open>userId\<close> is read.\<close>
record meeting =
  meeting_userId :: string

text \<open>
  The provider's Transcript event, as far as the handler reads it:
  \<^verbatim>\<open>data.channel?.alternatives?.[0]?.transcript\<close>, \<^verbatim>\<open>...?.confidence\<close> and
  \<^verbatim>\<open>data.is_final\<close>. The confidence is a number that is only passed through and never
  computed with.
\<close>
type_synonym number = real

record alternative =
  alt_transcript :: "string option"
  alt_confidence :: "number option"

record channel =
  alternatives :: "alternative list option"

record transcript_data =
  channel :: "channel option"
  is_final :: bool

text \<open>The payload of the service's \<^verbatim>\<open>transcription:data\<close> event.\<close>
record fragment =
  meetingId :: meeting_id
  transcript :: string
  isFinal :: bool
  confidence :: "number option"

text \<open>Events sent to clients.\<close>
datatype event =
    StreamError string
  | StreamStarted meeting_id
  | StreamStopped meeting_id string
  | TranscriptionUpdate string bool "number option"

datatype level = Info | Error | Debug

text \<open>
  What a handler does to the outside world: a log line, \<^verbatim>\<open>socket.emit\<close>,
  \<^verbatim>\<open>io.to(room).emit\<close>, an event the service emits on itself, \<^verbatim>\<open>connection.finish()\<close>
  and the call of \<^verbatim>\<open>meetingRepository.setTranscript\<close>.
\<close>
datatype effect =
    Log level string
  | SocketEmit socket_id "event"
  | RoomEmit string "event"
  | ServiceEmit string meeting_id
  | Finish conn
  | SetTranscript meeting_id string

text \<open>
  \<^verbatim>\<open>AudioStreamHandler.transcriptBuffers\<close>, \<^verbatim>\<open>TranscriptionService.activeConnections\<close>
  and the rooms each socket has joined.
\<close>
record state =
  transcriptBuffers :: "meeting_id \<rightharpoonup> string list"
  activeConnections :: "meeting_id \<rightharpoonup> conn"
  rooms :: "socket_id \<Rightarrow> string set"

text \<open>
  The outcomes of the collaborators: \<^verbatim>\<open>meetingRepository.findById\<close> (a row, null, or a
  throw), \<^verbatim>\<open>deepgram.listen.live\<close> (a connection or a throw), \<^verbatim>\<open>connection.finish\<close> and
  \<^verbatim>\<open>meetingRepository.setTranscript\<close> (\<open>None\<close> when they return, \<open>Some e\<close> when they
  throw \<open>e\<close>).
\<close>
record env =
  findById :: "meeting_id \<Rightarrow> err + meeting option"
  listen_live :: "err + conn"
  finish :: "conn \<Rightarrow> err option"
  setTranscript :: "meeting_id \<Rightarrow> string \<Rightarrow> err option"

section \<open>Helpers of the language\<close>

text \<open>\<^verbatim>\<open>Array.prototype.join\<close> on an array of strings.\<close>
fun join :: "string \<Rightarrow> string list \<Rightarrow> string" where
  "join sep [] = []"
| "join sep [x] = x"
| "join sep (x # y # ys) = x @ sep @ join sep (y # ys)"

text \<open>The room name \<^verbatim>\<open>`meeting:${meetingId}`\<close>.\<close>
definition room :: "meeting_id \<Rightarrow> string" where
  "room m = ''meeting:'' @ m"

text \<open>\<^verbatim>\<open>this.transcriptBuffers.get(meetingId) || []\<close>: an array is always truthy.\<close>
definition buffer_or_empty :: "state \<Rightarrow> meeting_id \<Rightarrow> string list" where
  "buffer_or_empty st m = (case transcriptBuffers st m of None \<Rightarrow> [] | Some b \<Rightarrow> b)"

section \<open>TranscriptionService\<close>

definition isTranscriptionActive :: "state \<Rightarrow> meeting_id \<Rightarrow> bool" where
  "isTranscriptionActive st m = (activeConnections st m \<noteq> None)"

definition startLiveTranscription ::
  "env \<Rightarrow> meeting_id \<Rightarrow> state \<Rightarrow> (err + conn) \<times> state \<times> effect list" where
  "startLiveTranscription ev m st =
     (case listen_live ev of
        Inl e \<Rightarrow> (Inl e, st, [Log Error ''Failed to start transcription''])
      | Inr c \<Rightarrow> (Inr c, st\<lparr>activeConnections := (activeConnections st)(m \<mapsto> c)\<rparr>, []))"

definition stopLiveTranscription ::
  "env \<Rightarrow> meeting_id \<Rightarrow> state \<Rightarrow> err option \<times> state \<times> effect list" where
  "stopLiveTranscription ev m st =
     (case activeConnections st m of
        None \<Rightarrow> (None, st, [])
      | Some c \<Rightarrow>
          (case finish ev c of
             Some e \<Rightarrow> (Some e, st, [Finish c, Log Error ''Failed to stop transcription''])
           | None \<Rightarrow>
               (None, st\<lparr>activeConnections := (activeConnections st)(m := None)\<rparr>,
                [Finish c, Log Info ''Transcription stopped''])))"

definition saveTranscript ::
  "env \<Rightarrow> meeting_id \<Rightarrow> string \<Rightarrow> err option \<times> effect list" where
  "saveTranscript ev m t =
     (case setTranscript ev m t of
        Some e \<Rightarrow> (Some e, [SetTranscript m t, Log Error ''Failed to save transcript''])
      | None \<Rightarrow> (None, [SetTranscript m t, Log Info ''Transcript saved'']))"

text \<open>The optional chain \<^verbatim>\<open>data.channel?.alternatives?.[0]\<close>.\<close>
definition first_alternative :: "transcript_data \<Rightarrow> alternative option" where
  "first_alternative d =
     (case channel d of
        None \<Rightarrow> None
      | Some ch \<Rightarrow>
          (case alternatives ch of
             None \<Rightarrow> None
           | Some [] \<Rightarrow> None
           | Some (a # _) \<Rightarrow> Some a))"

text \<open>\<^verbatim>\<open>data.channel?.alternatives?.[0]?.transcript\<close> and \<^verbatim>\<open>...?.confidence\<close>.\<close>
definition data_transcript :: "transcript_data \<Rightarrow> string option" where
  "data_transcript d = (case first_alternative d of None \<Rightarrow> None | Some a \<Rightarrow> alt_transcript a)"

definition data_confidence :: "transcript_data \<Rightarrow> number option" where
  "data_confidence d = (case first_alternative d of None \<Rightarrow> None | Some a \<Rightarrow> alt_confidence a)"

text \<open>
  The Transcript handler of the connection, up to the \<^verbatim>\<open>emit\<close>: the payload of
  \<^verbatim>\<open>transcription:data\<close>, or nothing when \<^verbatim>\<open>transcript\<close> is falsy (absent or empty).
\<close>
definition transcript_payload :: "meeting_id \<Rightarrow> transcript_data \<Rightarrow> fragment option" where
  "transcript_payload m d =
     (case data_transcript d of
        None \<Rightarrow> None
      | Some t \<Rightarrow>
          if t = [] then None
          else Some \<lparr>meetingId = m, transcript = t, isFinal = is_final d,
                     confidence = data_confidence d\<rparr>)"

section \<open>AudioStreamHandler\<close>

definition handleTranscriptionData :: "fragment \<Rightarrow> state \<Rightarrow> state \<times> effect list" where
  "handleTranscriptionData f st =
     ((if isFinal f
       then st\<lparr>transcriptBuffers :=
                 (transcriptBuffers st)(meetingId f \<mapsto> buffer_or_empty st (meetingId f) @ [transcript f])\<rparr>
       else st),
      [RoomEmit (room (meetingId f))
         (TranscriptionUpdate (transcript f) (isFinal f) (confidence f))])"

text \<open>The handler run on the fragments the service emits, one after the other.\<close>
fun handleTranscriptionDataAll :: "fragment list \<Rightarrow> state \<Rightarrow> state \<times> effect list" where
  "handleTranscriptionDataAll [] st = (st, [])"
| "handleTranscriptionDataAll (f # fs) st =
     (case handleTranscriptionData f st of
        (st1, es1) \<Rightarrow>
          (case handleTranscriptionDataAll fs st1 of
             (st2, es2) \<Rightarrow> (st2, es1 @ es2)))"

text \<open>
  The connection's Transcript event: the service's handler, then the listener the
  \<^verbatim>\<open>AudioStreamHandler\<close> constructor registered for \<^verbatim>\<open>transcription:data\<close>.
\<close>
definition onTranscript ::
  "meeting_id \<Rightarrow> transcript_data \<Rightarrow> state \<Rightarrow> state \<times> effect list" where
  "onTranscript m d st =
     (case transcript_payload m d of
        None \<Rightarrow> (st, [])
      | Some f \<Rightarrow>
          (case handleTranscriptionData f st of
             (st1, es) \<Rightarrow>
               (st1, [Log Debug ''Received transcript'', ServiceEmit ''transcription:data'' m] @ es)))"

text \<open>
  The connection's Error event: the service logs and emits \<^verbatim>\<open>transcription:error\<close>,
  whose listener in the \<^verbatim>\<open>AudioStreamHandler\<close> constructor logs.
\<close>
definition onError :: "meeting_id \<Rightarrow> err \<Rightarrow> state \<Rightarrow> state \<times> effect list" where
  "onError m e st =
     (st, [Log Error ''Transcription error'', ServiceEmit ''transcription:error'' m,
           Log Error ''Transcription error''])"

text \<open>The connection's Close event.\<close>
definition onClose :: "meeting_id \<Rightarrow> state \<Rightarrow> state \<times> effect list" where
  "onClose m st =
     (st\<lparr>activeConnections := (activeConnections st)(m := None)\<rparr>,
      [Log Info ''Transcription connection closed'', ServiceEmit ''transcription:ended'' m])"

definition handleStreamStart ::
  "env \<Rightarrow> socket \<Rightarrow> meeting_id \<Rightarrow> state \<Rightarrow> state \<times> effect list" where
  "handleStreamStart ev sock m st =
     (let starting = [Log Info ''Starting audio stream''];
          failed = [Log Error ''Failed to start stream'',
                    SocketEmit (socket_id sock) (StreamError ''Failed to start stream'')]
      in case findById ev m of
           Inl e \<Rightarrow> (st, starting @ failed)
         | Inr found \<Rightarrow>
             if found = None \<or> Some (meeting_userId (the found)) \<noteq> socket_userId sock
             then (st, starting @
                       [SocketEmit (socket_id sock)
                          (StreamError ''Meeting not found or unauthorized'')])
             else
               (case startLiveTranscription ev m
                       (st\<lparr>transcriptBuffers := (transcriptBuffers st)(m \<mapsto> [])\<rparr>) of
                  (Inl e, st1, es) \<Rightarrow> (st1, starting @ es @ failed)
                | (Inr c, st1, es) \<Rightarrow>
                    (st1\<lparr>rooms := (rooms st1)
                            (socket_id sock := insert (room m) (rooms st1 (socket_id sock)))\<rparr>,
                     starting @ es @
                       [SocketEmit (socket_id sock) (StreamStarted m),
                        Log Info ''Audio stream started''])))"

definition handleStreamStop ::
  "env \<Rightarrow> socket \<Rightarrow> meeting_id \<Rightarrow> state \<Rightarrow> state \<times> effect list" where
  "handleStreamStop ev sock m st =
     (let stopping = [Log Info ''Stopping audio stream''];
          failed = [Log Error ''Failed to stop stream'',
                    SocketEmit (socket_id sock) (StreamError ''Failed to stop stream'')]
      in case stopLiveTranscription ev m st of
           (Some e, st1, es1) \<Rightarrow> (st1, stopping @ es1 @ failed)
         | (None, st1, es1) \<Rightarrow>
             (let fullTranscript = join '' '' (buffer_or_empty st1 m)
              in case (if fullTranscript \<noteq> [] then saveTranscript ev m fullTranscript
                       else (None, [])) of
                   (Some e, es2) \<Rightarrow> (st1, stopping @ es1 @ es2 @ failed)
                 | (None, es2) \<Rightarrow>
                     (st1\<lparr>transcriptBuffers := (transcriptBuffers st1)(m := None),
                          rooms := (rooms st1)
                            (socket_id sock := rooms st1 (socket_id sock) - {room m})\<rparr>,
                      stopping @ es1 @ es2 @
                        [SocketEmit (socket_id sock) (StreamStopped m fullTranscript),
                         Log Info ''Audio stream stopped''])))"

text \<open>The body of \<^verbatim>\<open>handleDisconnect\<close> is one log line and a comment.\<close>
definition handleDisconnect :: "socket \<Rightarrow> state \<Rightarrow> state \<times> effect list" where
  "handleDisconnect sock st = (st, [Log Info ''Client disconnected''])"

section \<open>Observations on the effects\<close>

text \<open>The calls of the persistence collaborator, in order.\<close>
fun persisted :: "effect list \<Rightarrow> (meeting_id \<times> string) list" where
  "persisted [] = []"
| "persisted (SetTranscript m t # es) = (m, t) # persisted es"
| "persisted (_ # es) = persisted es"

text \<open>The events sent to one socket, in order.\<close>
fun socket_emits :: "effect list \<Rightarrow> (socket_id \<times> event) list" where
  "socket_emits [] = []"
| "socket_emits (SocketEmit s e # es) = (s, e) # socket_emits es"
| "socket_emits (_ # es) = socket_emits es"

text \<open>The events broadcast to a room, in order.\<close>
fun room_emits :: "effect list \<Rightarrow> (string \<times> event) list" where
  "room_emits [] = []"
| "room_emits (RoomEmit r e # es) = (r, e) # room_emits es"
| "room_emits (_ # es) = room_emits es"

text \<open>The upstream connections closed, in order.\<close>
fun finished :: "effect list \<Rightarrow> conn list" where
  "finished [] = []"
| "finished (Finish c # es) = c # finished es"
| "finished (_ # es) = finished es"

text \<open>The error lines logged, in order.\<close>
fun logged_errors :: "effect list \<Rightarrow> string list" where
  "logged_errors [] = []"
| "logged_errors (Log Error s # es) = s # logged_errors es"
| "logged_errors (_ # es) = logged_errors es"

section \<open>Concrete sessions used in the examples\<close>

definition sockA :: socket where
  "sockA = \<lparr>socket_id = ''sA'', socket_userId = Some ''A''\<rparr>"

text \<open>Meetings \<open>m1\<close> and \<open>m2\<close> belong to user \<open>A\<close>; every collaborator succeeds.\<close>
definition env_ok :: env where
  "env_ok = \<lparr>findById = (\<lambda>m. Inr (if m = ''m1'' \<or> m = ''m2''
                                     then Some \<lparr>meeting_userId = ''A''\<rparr> else None)),
             listen_live = Inr 2,
             finish = (\<lambda>c. None),
             setTranscript = (\<lambda>m t. None)\<rparr>"

text \<open>The same, with a persistence collaborator that throws.\<close>
definition env_save_fails :: env where
  "env_save_fails = env_ok\<lparr>setTranscript := (\<lambda>m t. Some (Err ''database down''))\<rparr>"

text \<open>The same, with a provider that cannot open a stream.\<close>
definition env_open_fails :: env where
  "env_open_fails = env_ok\<lparr>listen_live := Inl (Err ''provider unavailable'')\<rparr>"

definition st_empty :: state where
  "st_empty = \<lparr>transcriptBuffers = Map.empty, activeConnections = Map.empty,
               rooms = (\<lambda>s. {})\<rparr>"

text \<open>
  Session \<open>m1\<close> is Active on connection 1 with one final fragment buffered, and socket
  \<open>sA\<close> is in its room; session \<open>m2\<close> is Active on connection 7.
\<close>
definition st_active :: state where
  "st_active = \<lparr>transcriptBuffers = [''m1'' \<mapsto> [''hello''], ''m2'' \<mapsto> [''other'']],
                activeConnections = [''m1'' \<mapsto> 1, ''m2'' \<mapsto> 7],
                rooms = (\<lambda>s. if s = ''sA'' then {room ''m1''} else {})\<rparr>"

text \<open>
  Three fragments of session \<open>m1\<close>, in emission order: a final one, an interim one and a
  final one without a confidence.
\<close>
definition frags_hello_world :: "fragment list" where
  "frags_hello_world =
     [\<lparr>meetingId = ''m1'', transcript = ''hello'', isFinal = True, confidence = Some 0.9\<rparr>,
      \<lparr>meetingId = ''m1'', transcript = ''hello wor'', isFinal = False, confidence = Some 0.5\<rparr>,
      \<lparr>meetingId = ''m1'', transcript = ''world'', isFinal = True, confidence = None\<rparr>]"

text \<open>A final Transcript event of the provider whose text is the empty string.\<close>
definition data_empty_final :: transcript_data where
  "data_empty_final =
     \<lparr>channel = Some \<lparr>alternatives =
                  Some [\<lparr>alt_transcript = Some [], alt_confidence = Some 0.9\<rparr>]\<rparr>,
      is_final = True\<rparr>"

section \<open>Lemmas\<close>

lemmas handler_defs = handleStreamStart_def handleStreamStop_def startLiveTranscription_def
  stopLiveTranscription_def saveTranscript_def buffer_or_empty_def handleDisconnect_def
  onError_def handleTranscriptionData_def Let_def room_def

lemmas example_defs = env_ok_def env_save_fails_def env_open_fails_def st_empty_def
  st_active_def sockA_def isTranscriptionActive_def

lemma fragments_step:
  "handleTranscriptionDataAll (f # fs) st =
     (fst (handleTranscriptionDataAll fs (fst (handleTranscriptionData f st))),
      snd (handleTranscriptionData f st) @
      snd (handleTranscriptionDataAll fs (fst (handleTranscriptionData f st))))"
  by (simp split: prod.splits)

lemma fragments_keep_connections:
  "activeConnections (fst (handleTranscriptionDataAll fs st)) = activeConnections st \<and>
   rooms (fst (handleTranscriptionDataAll fs st)) = rooms st"
  by (induction fs arbitrary: st)
     (simp_all add: fragments_step handleTranscriptionData_def
        del: handleTranscriptionDataAll.simps(2))

lemma buffer_after_fragment:
  "buffer_or_empty (fst (handleTranscriptionData f st)) m =
     buffer_or_empty st m @ (if meetingId f = m \<and> isFinal f then [transcript f] else [])"
  by (simp add: handleTranscriptionData_def buffer_or_empty_def)

lemma buffer_after_fragments:
  "buffer_or_empty (fst (handleTranscriptionDataAll fs st)) m =
     buffer_or_empty st m @ map transcript (filter (\<lambda>f. meetingId f = m \<and> isFinal f) fs)"
proof (induction fs arbitrary: st)
  case Nil
  show ?case by simp
next
  case (Cons f fs)
  show ?case
    using Cons.IH [of "fst (handleTranscriptionData f st)"] buffer_after_fragment [of f st m]
    by (simp add: fragments_step del: handleTranscriptionDataAll.simps(2))
qed

lemma effects_of_fragments:
  "snd (handleTranscriptionDataAll fs st) =
     map (\<lambda>f. RoomEmit (room (meetingId f))
                 (TranscriptionUpdate (transcript f) (isFinal f) (confidence f))) fs"
  by (induction fs arbitrary: st)
     (simp_all add: fragments_step handleTranscriptionData_def
        del: handleTranscriptionDataAll.simps(2))

text \<open>What a stop that reported \<^verbatim>\<open>stream:stopped\<close> leaves behind for its id.\<close>
lemma stop_completed_state:
  assumes "socket_emits (snd (handleStreamStop ev sock m st)) =
             [(socket_id sock, StreamStopped m t)]"
  shows "activeConnections (fst (handleStreamStop ev sock m st)) m = None \<and>
         transcriptBuffers (fst (handleStreamStop ev sock m st)) m = None \<and>
         room m \<notin> rooms (fst (handleStreamStop ev sock m st)) (socket_id sock)"
  using assms
  by (auto simp: handleStreamStop_def stopLiveTranscription_def saveTranscript_def Let_def
      split: option.splits if_splits)

text \<open>A stop for an id with no connection, no buffer and no room membership.\<close>
lemma stop_of_absent_session:
  assumes "activeConnections st m = None" and "transcriptBuffers st m = None"
    and "room m \<notin> rooms st (socket_id sock)"
  shows "handleStreamStop ev sock m st =
     (st, [Log Info ''Stopping audio stream'',
           SocketEmit (socket_id sock) (StreamStopped m []),
           Log Info ''Audio stream stopped''])"
proof -
  have "(transcriptBuffers st)(m := None) = transcriptBuffers st"
    using assms(2) by (simp add: fun_upd_idem)
  moreover have "(rooms st)(socket_id sock := rooms st (socket_id sock) - {room m}) = rooms st"
    using assms(3) by (simp add: fun_upd_idem)
  ultimately show ?thesis
    using assms(1,2)
    by (simp add: handleStreamStop_def stopLiveTranscription_def buffer_or_empty_def Let_def)
qed

section \<open>Starting a stream\<close>

text \<open>
  C1, as amended. \<^verbatim>\<open>handleStreamStart\<close> never asks whether the id is already Active. A
  \<^verbatim>\<open>start\<close> from the owning connection, for which the provider opens a stream \<open>c\<close>, is
  accepted whatever the state was, in particular when the id is Active: the transcript
  buffer of the id is reset to the empty list, \<open>c\<close> replaces the connection stored for the
  id (the earlier one is not closed), the socket joins the room, and the requester gets
  \<^verbatim>\<open>stream:started\<close>, not an error.
\<close>
theorem start_on_active_replaces_session:
  assumes "findById ev m = Inr (Some mt)"
    and "socket_userId sock = Some (meeting_userId mt)"
    and "listen_live ev = Inr c"
  shows "handleStreamStart ev sock m st =
    (st\<lparr>transcriptBuffers := (transcriptBuffers st)(m \<mapsto> []),
        activeConnections := (activeConnections st)(m \<mapsto> c),
        rooms := (rooms st)(socket_id sock := insert (room m) (rooms st (socket_id sock)))\<rparr>,
     [Log Info ''Starting audio stream'', SocketEmit (socket_id sock) (StreamStarted m),
      Log Info ''Audio stream started''])"
  using assms by (simp add: handleStreamStart_def startLiveTranscription_def)

theorem start_on_active_replaces_session_witness:
  "isTranscriptionActive st_active ''m1'' \<and>
   findById env_ok ''m1'' = Inr (Some \<lparr>meeting_userId = ''A''\<rparr>) \<and>
   socket_userId sockA = Some ''A'' \<and>
   listen_live env_ok = Inr 2 \<and>
   handleStreamStart env_ok sockA ''m1'' st_active =
    (st_active\<lparr>transcriptBuffers := (transcriptBuffers st_active)(''m1'' \<mapsto> []),
        activeConnections := (activeConnections st_active)(''m1'' \<mapsto> 2),
        rooms := (rooms st_active)(''sA'' := insert (room ''m1'') (rooms st_active ''sA''))\<rparr>,
     [Log Info ''Starting audio stream'', SocketEmit ''sA'' (StreamStarted ''m1''),
      Log Info ''Audio stream started''])"
  using start_on_active_replaces_session
    [where ev = env_ok and m = "''m1''" and mt = "\<lparr>meeting_userId = ''A''\<rparr>"
       and sock = sockA and c = 2 and st = st_active]
  by (simp add: env_ok_def sockA_def st_active_def isTranscriptionActive_def)

text \<open>
  The claim as written fails: \<open>m1\<close> is Active with \<open>hello\<close> buffered on connection 1, its
  owner starts it again, and the requester gets \<^verbatim>\<open>stream:started\<close> while the buffer is
  emptied and connection 2 takes the place of connection 1.
\<close>
theorem start_on_active_counterexample:
  "isTranscriptionActive st_active ''m1'' \<and>
   transcriptBuffers st_active ''m1'' = Some [''hello''] \<and>
   activeConnections st_active ''m1'' = Some 1 \<and>
   socket_emits (snd (handleStreamStart env_ok sockA ''m1'' st_active)) =
     [(''sA'', StreamStarted ''m1'')] \<and>
   transcriptBuffers (fst (handleStreamStart env_ok sockA ''m1'' st_active)) ''m1'' = Some [] \<and>
   activeConnections (fst (handleStreamStart env_ok sockA ''m1'' st_active)) ''m1'' = Some 2"
  by (simp add: handler_defs example_defs)

text \<open>
  C8, as amended. When the ownership check passes and the provider fails to open a
  stream, the requester gets \<^verbatim>\<open>stream:error\<close> and no connection is stored, but the buffer
  entry written before the attempt is not reverted: the id is left with an empty buffer
  (and loses whatever an earlier session of that id had buffered).
\<close>
theorem start_open_failure_keeps_empty_buffer:
  assumes "findById ev m = Inr (Some mt)"
    and "socket_userId sock = Some (meeting_userId mt)"
    and "listen_live ev = Inl e"
  shows "handleStreamStart ev sock m st =
    (st\<lparr>transcriptBuffers := (transcriptBuffers st)(m \<mapsto> [])\<rparr>,
     [Log Info ''Starting audio stream'', Log Error ''Failed to start transcription'',
      Log Error ''Failed to start stream'',
      SocketEmit (socket_id sock) (StreamError ''Failed to start stream'')])"
  using assms by (simp add: handleStreamStart_def startLiveTranscription_def)

theorem start_open_failure_keeps_empty_buffer_witness:
  "findById env_open_fails ''m1'' = Inr (Some \<lparr>meeting_userId = ''A''\<rparr>) \<and>
   socket_userId sockA = Some ''A'' \<and>
   listen_live env_open_fails = Inl (Err ''provider unavailable'') \<and>
   handleStreamStart env_open_fails sockA ''m1'' st_active =
    (st_active\<lparr>transcriptBuffers := (transcriptBuffers st_active)(''m1'' \<mapsto> [])\<rparr>,
     [Log Info ''Starting audio stream'', Log Error ''Failed to start transcription'',
      Log Error ''Failed to start stream'',
      SocketEmit ''sA'' (StreamError ''Failed to start stream'')])"
  using start_open_failure_keeps_empty_buffer
    [where ev = env_open_fails and m = "''m1''" and mt = "\<lparr>meeting_userId = ''A''\<rparr>"
       and sock = sockA and e = "Err ''provider unavailable''" and st = st_active]
  by (simp add: env_open_fails_def env_ok_def sockA_def)

text \<open>
  The claim as written fails: no state exists for \<open>m1\<close>, the provider cannot open a
  stream, and afterwards \<open>m1\<close> has a buffer entry.
\<close>
theorem start_open_failure_counterexample:
  "transcriptBuffers st_empty ''m1'' = None \<and>
   transcriptBuffers (fst (handleStreamStart env_open_fails sockA ''m1'' st_empty)) ''m1'' =
     Some [] \<and>
   socket_emits (snd (handleStreamStart env_open_fails sockA ''m1'' st_empty)) =
     [(''sA'', StreamError ''Failed to start stream'')]"
  by (simp add: handler_defs example_defs)

section \<open>Disconnect and adapter errors\<close>

text \<open>
  C2, the code at the failing input. The owner of the Active session \<open>m1\<close> disconnects:
  \<^verbatim>\<open>handleDisconnect\<close> leaves the whole state as it was, closes no connection and
  persists nothing, whereas an explicit \<^verbatim>\<open>stop\<close> in the same state closes connection 1,
  persists \<open>hello\<close> and removes the buffer entry.
\<close>
theorem disconnect_keeps_session:
  "fst (handleDisconnect sockA st_active) = st_active \<and>
   isTranscriptionActive (fst (handleDisconnect sockA st_active)) ''m1'' \<and>
   finished (snd (handleDisconnect sockA st_active)) = [] \<and>
   persisted (snd (handleDisconnect sockA st_active)) = [] \<and>
   \<not> isTranscriptionActive (fst (handleStreamStop env_ok sockA ''m1'' st_active)) ''m1'' \<and>
   transcriptBuffers (fst (handleStreamStop env_ok sockA ''m1'' st_active)) ''m1'' = None \<and>
   finished (snd (handleStreamStop env_ok sockA ''m1'' st_active)) = [1] \<and>
   persisted (snd (handleStreamStop env_ok sockA ''m1'' st_active)) = [(''m1'', ''hello'')]"
  by (simp add: handler_defs example_defs)

text \<open>
  C3, as amended. An error of the upstream connection is logged by the service and by
  the handler and changes nothing else: the state is the same (the connection stays in
  the map, so the session stays Active, and the buffer keeps the partial transcript), no
  connection is closed, and nothing is sent to the room or to a socket.
\<close>
theorem adapter_error_only_logged:
  "fst (onError m e st) = st \<and>
   logged_errors (snd (onError m e st)) = [''Transcription error'', ''Transcription error''] \<and>
   finished (snd (onError m e st)) = [] \<and>
   room_emits (snd (onError m e st)) = [] \<and>
   socket_emits (snd (onError m e st)) = []"
  by (simp add: onError_def)

theorem adapter_error_only_logged_witness:
  "fst (onError ''m1'' (Err ''rate limit'') st_active) = st_active \<and>
   logged_errors (snd (onError ''m1'' (Err ''rate limit'') st_active)) =
     [''Transcription error'', ''Transcription error''] \<and>
   room_emits (snd (onError ''m1'' (Err ''rate limit'') st_active)) = []"
  using adapter_error_only_logged [of "''m1''" "Err ''rate limit''" st_active]
  by simp

text \<open>
  The claim as written fails: after an adapter error on the Active session \<open>m1\<close> the
  session is still Active, its connection was not closed, and no event reached the room.
\<close>
theorem adapter_error_counterexample:
  "isTranscriptionActive st_active ''m1'' \<and>
   isTranscriptionActive (fst (onError ''m1'' (Err ''rate limit'') st_active)) ''m1'' \<and>
   finished (snd (onError ''m1'' (Err ''rate limit'') st_active)) = [] \<and>
   room_emits (snd (onError ''m1'' (Err ''rate limit'') st_active)) = []"
  by (simp add: onError_def example_defs)

section \<open>Fragments\<close>

text \<open>
  C6. The handler run on the fragments in emission order sends exactly one
  \<^verbatim>\<open>transcription:update\<close> per fragment to the room of the fragment's session, in that
  order, carrying its text, \<^verbatim>\<open>isFinal\<close> flag and confidence; and the buffer of a session
  afterwards is its buffer before followed by the texts of the session's fragments with
  \<^verbatim>\<open>isFinal\<close> set, in that order: interim fragments add nothing.
\<close>
theorem fragments_broadcast_and_buffered:
  "snd (handleTranscriptionDataAll fs st) =
     map (\<lambda>f. RoomEmit (room (meetingId f))
                 (TranscriptionUpdate (transcript f) (isFinal f) (confidence f))) fs \<and>
   buffer_or_empty (fst (handleTranscriptionDataAll fs st)) m =
     buffer_or_empty st m @ map transcript (filter (\<lambda>f. meetingId f = m \<and> isFinal f) fs)"
proof
  show "snd (handleTranscriptionDataAll fs st) =
     map (\<lambda>f. RoomEmit (room (meetingId f))
                 (TranscriptionUpdate (transcript f) (isFinal f) (confidence f))) fs"
    by (rule effects_of_fragments)
next
  show "buffer_or_empty (fst (handleTranscriptionDataAll fs st)) m =
     buffer_or_empty st m @ map transcript (filter (\<lambda>f. meetingId f = m \<and> isFinal f) fs)"
    by (rule buffer_after_fragments)
qed

theorem fragments_broadcast_and_buffered_witness:
  "snd (handleTranscriptionDataAll frags_hello_world st_active) =
     [RoomEmit ''meeting:m1'' (TranscriptionUpdate ''hello'' True (Some 0.9)),
      RoomEmit ''meeting:m1'' (TranscriptionUpdate ''hello wor'' False (Some 0.5)),
      RoomEmit ''meeting:m1'' (TranscriptionUpdate ''world'' True None)] \<and>
   buffer_or_empty (fst (handleTranscriptionDataAll frags_hello_world st_active)) ''m1'' =
     [''hello'', ''hello'', ''world'']"
  using fragments_broadcast_and_buffered
    [where fs = frags_hello_world and st = st_active and m = "''m1''"]
  by (simp add: frags_hello_world_def st_active_def buffer_or_empty_def room_def)

text \<open>
  C9. A Transcript event of the provider whose extracted text is absent or empty has no
  effect at all: the state (the buffers in particular) is unchanged and nothing is
  emitted, neither \<^verbatim>\<open>transcription:data\<close> nor a broadcast to the room, whatever its
  \<^verbatim>\<open>is_final\<close> flag and confidence are.
\<close>
theorem empty_transcript_dropped:
  assumes "data_transcript d = None \<or> data_transcript d = Some []"
  shows "onTranscript m d st = (st, [])"
proof -
  have "transcript_payload m d = None"
    using assms by (auto simp: transcript_payload_def)
  then show ?thesis by (simp add: onTranscript_def)
qed

theorem empty_transcript_dropped_witness:
  "is_final data_empty_final \<and>
   data_transcript data_empty_final = Some [] \<and>
   onTranscript ''m1'' data_empty_final st_active = (st_active, [])"
proof -
  have h: "data_transcript data_empty_final = Some []"
    by (simp add: data_transcript_def first_alternative_def data_empty_final_def)
  show ?thesis
    using h empty_transcript_dropped [where d = data_empty_final and m = "''m1''" and st = st_active]
    by (simp add: data_empty_final_def)
qed

section \<open>Stopping a stream\<close>

text \<open>
  C10. A \<^verbatim>\<open>stop\<close> of session \<open>m\<close> leaves the upstream connection entry and the buffer
  of every other session id as they were, whichever way the stop ends.
\<close>
theorem stop_leaves_other_sessions:
  assumes "m' \<noteq> m"
  shows "activeConnections (fst (handleStreamStop ev sock m st)) m' = activeConnections st m' \<and>
         transcriptBuffers (fst (handleStreamStop ev sock m st)) m' = transcriptBuffers st m'"
  using assms
  by (auto simp: handleStreamStop_def stopLiveTranscription_def saveTranscript_def Let_def
      split: option.splits)

theorem stop_leaves_other_sessions_witness:
  "''m2'' \<noteq> ''m1'' \<and>
   activeConnections (fst (handleStreamStop env_ok sockA ''m1'' st_active)) ''m2'' = Some 7 \<and>
   transcriptBuffers (fst (handleStreamStop env_ok sockA ''m1'' st_active)) ''m2'' =
     Some [''other'']"
  using stop_leaves_other_sessions
    [where m' = "''m2''" and m = "''m1''" and ev = env_ok and sock = sockA and st = st_active]
  by (simp add: st_active_def)

text \<open>
  C4, as amended. When the persistence call of a \<^verbatim>\<open>stop\<close> of an Active session fails,
  the failure is logged and the upstream connection is closed and removed, but the
  teardown stops there: the buffer entry and the room membership are left as they were,
  and the requester gets \<^verbatim>\<open>stream:error\<close> in place of \<^verbatim>\<open>stream:stopped\<close>.
\<close>
theorem stop_on_persistence_failure:
  assumes "activeConnections st m = Some c"
    and "finish ev c = None"
    and "join '' '' (buffer_or_empty st m) \<noteq> []"
    and "setTranscript ev m (join '' '' (buffer_or_empty st m)) = Some e"
  shows "handleStreamStop ev sock m st =
    (st\<lparr>activeConnections := (activeConnections st)(m := None)\<rparr>,
     [Log Info ''Stopping audio stream'', Finish c, Log Info ''Transcription stopped'',
      SetTranscript m (join '' '' (buffer_or_empty st m)), Log Error ''Failed to save transcript'',
      Log Error ''Failed to stop stream'',
      SocketEmit (socket_id sock) (StreamError ''Failed to stop stream'')])"
  using assms
  by (simp add: handleStreamStop_def stopLiveTranscription_def saveTranscript_def
      buffer_or_empty_def)

theorem stop_on_persistence_failure_witness:
  "activeConnections st_active ''m1'' = Some 1 \<and>
   finish env_save_fails 1 = None \<and>
   join '' '' (buffer_or_empty st_active ''m1'') = ''hello'' \<and>
   setTranscript env_save_fails ''m1'' ''hello'' = Some (Err ''database down'') \<and>
   handleStreamStop env_save_fails sockA ''m1'' st_active =
    (st_active\<lparr>activeConnections := (activeConnections st_active)(''m1'' := None)\<rparr>,
     [Log Info ''Stopping audio stream'', Finish 1, Log Info ''Transcription stopped'',
      SetTranscript ''m1'' ''hello'', Log Error ''Failed to save transcript'',
      Log Error ''Failed to stop stream'',
      SocketEmit ''sA'' (StreamError ''Failed to stop stream'')])"
proof -
  have b: "join '' '' (buffer_or_empty st_active ''m1'') = ''hello''"
    by (simp add: buffer_or_empty_def st_active_def)
  have c: "activeConnections st_active ''m1'' = Some 1"
    by (simp add: st_active_def)
  have f: "finish env_save_fails 1 = None"
    and p: "setTranscript env_save_fails ''m1'' ''hello'' = Some (Err ''database down'')"
    by (simp_all add: env_save_fails_def env_ok_def)
  show ?thesis
    using b c f p
      stop_on_persistence_failure
        [where st = st_active and m = "''m1''" and c = 1 and ev = env_save_fails
           and e = "Err ''database down''" and sock = sockA]
    by (simp add: sockA_def)
qed

text \<open>
  The claim as written fails: the persistence call of the stop of the Active session
  \<open>m1\<close> throws, and afterwards the buffer entry of \<open>m1\<close> is still there, the socket is still
  in the room, and the requester was sent \<^verbatim>\<open>stream:error\<close>.
\<close>
theorem stop_on_persistence_failure_counterexample:
  "isTranscriptionActive st_active ''m1'' \<and>
   logged_errors (snd (handleStreamStop env_save_fails sockA ''m1'' st_active)) =
     [''Failed to save transcript'', ''Failed to stop stream''] \<and>
   transcriptBuffers (fst (handleStreamStop env_save_fails sockA ''m1'' st_active)) ''m1'' =
     Some [''hello''] \<and>
   room ''m1'' \<in> rooms (fst (handleStreamStop env_save_fails sockA ''m1'' st_active)) ''sA'' \<and>
   socket_emits (snd (handleStreamStop env_save_fails sockA ''m1'' st_active)) =
     [(''sA'', StreamError ''Failed to stop stream'')]"
  by (simp add: handler_defs example_defs)

text \<open>
  C7, as amended. After a \<^verbatim>\<open>stop\<close> that completed (it reported \<^verbatim>\<open>stream:stopped\<close>), a
  second \<^verbatim>\<open>stop\<close> of the same id changes no state, closes no connection and persists
  nothing, whatever the collaborators would answer; it reports \<^verbatim>\<open>stream:stopped\<close> once
  more, with the empty string as transcript.
\<close>
theorem second_stop_changes_nothing:
  assumes "socket_emits (snd (handleStreamStop ev sock m st)) =
             [(socket_id sock, StreamStopped m t)]"
  shows "handleStreamStop ev' sock m (fst (handleStreamStop ev sock m st)) =
     (fst (handleStreamStop ev sock m st),
      [Log Info ''Stopping audio stream'',
       SocketEmit (socket_id sock) (StreamStopped m []),
       Log Info ''Audio stream stopped''])"
proof -
  let ?st1 = "fst (handleStreamStop ev sock m st)"
  have "activeConnections ?st1 m = None" and "transcriptBuffers ?st1 m = None"
    and "room m \<notin> rooms ?st1 (socket_id sock)"
    using stop_completed_state [OF assms] by simp_all
  then show ?thesis by (rule stop_of_absent_session)
qed

theorem second_stop_changes_nothing_witness:
  "socket_emits (snd (handleStreamStop env_ok sockA ''m1'' st_active)) =
     [(''sA'', StreamStopped ''m1'' ''hello'')] \<and>
   handleStreamStop env_save_fails sockA ''m1''
       (fst (handleStreamStop env_ok sockA ''m1'' st_active)) =
     (fst (handleStreamStop env_ok sockA ''m1'' st_active),
      [Log Info ''Stopping audio stream'',
       SocketEmit ''sA'' (StreamStopped ''m1'' []),
       Log Info ''Audio stream stopped''])"
proof -
  have h: "socket_emits (snd (handleStreamStop env_ok sockA ''m1'' st_active)) =
      [(socket_id sockA, StreamStopped ''m1'' ''hello'')]"
    by (simp add: handler_defs example_defs)
  have s: "socket_id sockA = ''sA''"
    by (simp add: sockA_def)
  show ?thesis
    using h s second_stop_changes_nothing [OF h, where ev' = env_save_fails]
    by simp
qed

text \<open>
  The claim as written fails: the first stop of \<open>m1\<close> reports the transcript \<open>hello\<close> to
  the client, the second one reports the empty transcript.
\<close>
theorem second_stop_counterexample:
  "socket_emits (snd (handleStreamStop env_ok sockA ''m1'' st_active)) =
     [(''sA'', StreamStopped ''m1'' ''hello'')] \<and>
   socket_emits (snd (handleStreamStop env_ok sockA ''m1''
       (fst (handleStreamStop env_ok sockA ''m1'' st_active)))) =
     [(''sA'', StreamStopped ''m1'' [])]"
  by (simp add: handler_defs example_defs)

section \<open>A session from start to stop\<close>

text \<open>
  C5, as amended. For a session that runs from an accepted \<^verbatim>\<open>start\<close> to a \<^verbatim>\<open>stop\<close>
  whose upstream connection closes, the text handed to the persistence collaborator is
  the texts of the session's fragments with \<^verbatim>\<open>isFinal\<close> set, in emission order, joined
  with one space between neighbours; when that text is empty (no final fragment), the
  collaborator is not called.
\<close>
theorem persisted_is_joined_finals:
  assumes "findById ev m = Inr (Some mt)"
    and "socket_userId sock = Some (meeting_userId mt)"
    and "listen_live ev = Inr c"
    and "finish ev' c = None"
  shows "persisted (snd (handleStreamStop ev' sock m
            (fst (handleTranscriptionDataAll fs (fst (handleStreamStart ev sock m st)))))) =
         (if join '' '' (map transcript (filter (\<lambda>f. meetingId f = m \<and> isFinal f) fs)) = []
          then []
          else [(m, join '' '' (map transcript (filter (\<lambda>f. meetingId f = m \<and> isFinal f) fs)))])"
proof -
  let ?st1 = "fst (handleStreamStart ev sock m st)"
  let ?st2 = "fst (handleTranscriptionDataAll fs ?st1)"
  have s1: "buffer_or_empty ?st1 m = []" "activeConnections ?st1 m = Some c"
    using assms
    by (simp_all add: handleStreamStart_def startLiveTranscription_def buffer_or_empty_def)
  have c2: "activeConnections ?st2 m = Some c"
    using fragments_keep_connections [of fs ?st1] s1 by simp
  have b2: "buffer_or_empty ?st2 m =
      map transcript (filter (\<lambda>f. meetingId f = m \<and> isFinal f) fs)"
    using buffer_after_fragments [of fs ?st1 m] s1 by simp
  have b3: "buffer_or_empty (?st2\<lparr>activeConnections := (activeConnections ?st2)(m := None)\<rparr>) m
      = buffer_or_empty ?st2 m"
    by (simp add: buffer_or_empty_def)
  show ?thesis
    using c2 b2 b3 assms(4)
    by (simp add: handleStreamStop_def stopLiveTranscription_def saveTranscript_def Let_def
        split: option.splits)
qed

theorem persisted_is_joined_finals_witness:
  "findById env_ok ''m1'' = Inr (Some \<lparr>meeting_userId = ''A''\<rparr>) \<and>
   socket_userId sockA = Some ''A'' \<and>
   listen_live env_ok = Inr 2 \<and>
   finish env_save_fails 2 = None \<and>
   persisted (snd (handleStreamStop env_save_fails sockA ''m1''
       (fst (handleTranscriptionDataAll frags_hello_world
          (fst (handleStreamStart env_ok sockA ''m1'' st_active)))))) =
     [(''m1'', ''hello world'')]"
  using persisted_is_joined_finals
    [where ev = env_ok and m = "''m1''" and mt = "\<lparr>meeting_userId = ''A''\<rparr>" and sock = sockA
       and c = 2 and ev' = env_save_fails and fs = frags_hello_world and st = st_active]
  by (simp add: env_ok_def env_save_fails_def sockA_def frags_hello_world_def)

text \<open>
  The claim as written fails: the final fragments \<open>hello\<close> and \<open>world\<close> are persisted as
  \<open>hello world\<close>, which is not their concatenation.
\<close>
theorem persisted_concatenation_counterexample:
  "persisted (snd (handleStreamStop env_ok sockA ''m1''
      (fst (handleTranscriptionDataAll frags_hello_world
         (fst (handleStreamStart env_ok sockA ''m1'' st_empty)))))) =
     [(''m1'', ''hello world'')] \<and>
   concat (map transcript (filter isFinal frags_hello_world)) = ''helloworld''"
  by (simp add: handler_defs example_defs frags_hello_world_def)

end
